theory Spec2Isabelle
  imports Complex_Main
begin

section \<open>The proxy backend of Athena: values, requests and replies\<close>

text \<open>
  The Express server (the backend file of the repository, 318 lines) is a set of route
  handlers. Each handler is embedded as a function from the request, the configuration
  and the answers of the outside world (the upstream Python service, the file system,
  the clock) to the HTTP reply it sends, together with the list of requests it forwarded
  upstream. Logging to the console is not part of the model.
\<close>

subsection \<open>JavaScript values\<close>

text \<open>
  The values that travel through request and reply bodies. An object is the list of
  its own properties; a lookup takes the first binding of a key. Numbers are the
  finite ones (a JSON number literal that overflows to an infinity is outside the type).
\<close>

datatype json =
    JUndefined
  | JNull
  | JBool bool
  | JNum real
  | JStr string
  | JArr "json list"
  | JObj "(string \<times> json) list"

text \<open>\<open>!!v\<close>: the falsy values are undefined, null, false, 0 and the empty string.\<close>

fun truthy :: "json \<Rightarrow> bool" where
  "truthy JUndefined = False"
| "truthy JNull = False"
| "truthy (JBool b) = b"
| "truthy (JNum r) = (r \<noteq> 0)"
| "truthy (JStr s) = (s \<noteq> [])"
| "truthy (JArr _) = True"
| "truthy (JObj _) = True"

text \<open>\<open>a || b\<close> on values.\<close>

definition js_or :: "json \<Rightarrow> json \<Rightarrow> json" where
  "js_or a b = (if truthy a then a else b)"

text \<open>
  Reading a named property of an object, as the destructuring
  \<open>const { path: docPath, question } = req.body\<close> does: a key that is not there reads
  as undefined.
\<close>

definition field :: "(string \<times> json) list \<Rightarrow> string \<Rightarrow> json" where
  "field props k = (case map_of props k of None \<Rightarrow> JUndefined | Some v \<Rightarrow> v)"

text \<open>
  \<open>v?.k\<close>: undefined on null and undefined, the property on an object, and undefined
  on every other value for the keys read here (\<open>detail\<close>).
\<close>

fun opt_prop :: "json \<Rightarrow> string \<Rightarrow> json" where
  "opt_prop (JObj props) k = field props k"
| "opt_prop _ k = JUndefined"

subsection \<open>Errors, the upstream service, replies\<close>

text \<open>
  What a \<open>catch\<close> block receives. Every error has a \<open>message\<close>; an error of the HTTP
  client also carries the upstream \<open>response\<close> (its status and its parsed body) when
  the upstream answered with a status outside 2xx, and no response when the upstream
  could not be reached or timed out.
\<close>

record upstream_response =
  resp_status :: nat
  resp_data :: json

record js_error =
  message :: string
  response :: "upstream_response option"

datatype http_method = GET | POST | DELETE

record form_part =
  part_field :: string
  part_stream_path :: string
  part_filename :: string
  part_content_type :: string

datatype payload = NoBody | JsonBody json | FormBody "form_part list"

record upstream_request =
  req_method :: http_method
  req_url :: string
  req_data :: payload
  req_timeout :: "nat option"

text \<open>
  The upstream service as the proxy sees it: a request either resolves with the
  \<open>data\<close> of a 2xx response (\<open>Inr\<close>) or rejects with an error (\<open>Inl\<close>).
\<close>

type_synonym upstream = "upstream_request \<Rightarrow> js_error + json"

record reply =
  status :: nat
  body :: json

text \<open>What a handler did: the reply it sent and the requests it made upstream, in order.\<close>

record outcome =
  sent :: reply
  forwarded :: "upstream_request list"

text \<open>\<open>res.json(v)\<close> answers 200; \<open>res.status(n).json(v)\<close> answers \<open>n\<close>.\<close>

definition res_json :: "json \<Rightarrow> reply" where
  "res_json v = \<lparr>status = 200, body = v\<rparr>"

definition res_status_json :: "nat \<Rightarrow> json \<Rightarrow> reply" where
  "res_status_json n v = \<lparr>status = n, body = v\<rparr>"

subsection \<open>Configuration\<close>

text \<open>
  \<open>PYTHON_API_URL = process.env.PYTHON_API_URL || 'http://localhost:8000'\<close>; the
  directory of the server file (\<open>__dirname\<close>) and the working directory of the process
  are given from outside.
\<close>

record config =
  env_PYTHON_API_URL :: "string option"
  dirname :: string
  cwd :: string

definition PYTHON_API_URL :: "config \<Rightarrow> string" where
  "PYTHON_API_URL cfg =
     (case env_PYTHON_API_URL cfg of
        None \<Rightarrow> ''http://localhost:8000''
      | Some u \<Rightarrow> if u \<noteq> [] then u else ''http://localhost:8000'')"

definition post_json :: "string \<Rightarrow> json \<Rightarrow> upstream_request" where
  "post_json u v = \<lparr>req_method = POST, req_url = u, req_data = JsonBody v, req_timeout = None\<rparr>"

section \<open>The passthrough endpoints\<close>

text \<open>
  The \<open>catch\<close> block shared, word for word, by the five passthrough handlers:
  \<open>res.status(error.response?.status || 500)
      .json({ error: error.response?.data?.detail || error.message })\<close>.
\<close>

definition error_status :: "js_error \<Rightarrow> nat" where
  "error_status e =
     (case response e of
        None \<Rightarrow> 500
      | Some r \<Rightarrow> if resp_status r \<noteq> 0 then resp_status r else 500)"

definition error_detail :: "js_error \<Rightarrow> json" where
  "error_detail e =
     js_or (case response e of None \<Rightarrow> JUndefined | Some r \<Rightarrow> opt_prop (resp_data r) ''detail'')
           (JStr (message e))"

definition catch_upstream :: "js_error \<Rightarrow> reply" where
  "catch_upstream e = res_status_json (error_status e) (JObj [(''error'', error_detail e)])"

text \<open>
  \<open>await axios.post(url, data); res.json(response.data)\<close> inside the \<open>try\<close>, with the
  \<open>catch\<close> above.
\<close>

definition forward :: "upstream \<Rightarrow> upstream_request \<Rightarrow> outcome" where
  "forward up rq =
     (case up rq of
        Inr d \<Rightarrow> \<lparr>sent = res_json d, forwarded = [rq]\<rparr>
      | Inl e \<Rightarrow> \<lparr>sent = catch_upstream e, forwarded = [rq]\<rparr>)"

definition bad_request :: "string \<Rightarrow> outcome" where
  "bad_request msg =
     \<lparr>sent = res_status_json 400 (JObj [(''error'', JStr msg)]), forwarded = []\<rparr>"

text \<open>
  The body of a request is the object that the JSON and urlencoded body parsers of
  Express 4 leave in \<open>req.body\<close> (an empty object when the request has no body, or
  one of another content type), given as its list of properties. The server runs on
  Express 4 only: at start-up it walks \<open>app._router.stack\<close>, which later versions do
  not have. So \<open>req.body\<close> is never null or undefined, and destructuring it does
  not throw.
\<close>

definition ask_request :: "config \<Rightarrow> (string \<times> json) list \<Rightarrow> upstream_request" where
  "ask_request cfg b =
     post_json (PYTHON_API_URL cfg @ ''/document/ask'')
       (JObj [(''path'', field b ''path''), (''question'', field b ''question'')])"

definition post_api_document_ask :: "config \<Rightarrow> upstream \<Rightarrow> (string \<times> json) list \<Rightarrow> outcome" where
  "post_api_document_ask cfg up b =
     (let docPath = field b ''path''; question = field b ''question'' in
      if \<not> truthy docPath \<or> \<not> truthy question
      then bad_request ''Document path and question are required''
      else forward up (ask_request cfg b))"

definition synthesis_request :: "config \<Rightarrow> (string \<times> json) list \<Rightarrow> upstream_request" where
  "synthesis_request cfg b =
     post_json (PYTHON_API_URL cfg @ ''/synthesis'') (JObj [(''query'', field b ''query'')])"

definition post_api_synthesis :: "config \<Rightarrow> upstream \<Rightarrow> (string \<times> json) list \<Rightarrow> outcome" where
  "post_api_synthesis cfg up b =
     (let query = field b ''query'' in
      if \<not> truthy query
      then bad_request ''Query is required''
      else forward up (synthesis_request cfg b))"

definition layman_request :: "config \<Rightarrow> (string \<times> json) list \<Rightarrow> upstream_request" where
  "layman_request cfg b =
     post_json (PYTHON_API_URL cfg @ ''/layman'') (JObj [(''path'', field b ''path'')])"

definition post_api_layman :: "config \<Rightarrow> upstream \<Rightarrow> (string \<times> json) list \<Rightarrow> outcome" where
  "post_api_layman cfg up b =
     (let docPath = field b ''path'' in
      if \<not> truthy docPath
      then bad_request ''Document path is required''
      else forward up (layman_request cfg b))"

definition related_papers_request :: "config \<Rightarrow> (string \<times> json) list \<Rightarrow> upstream_request" where
  "related_papers_request cfg b =
     post_json (PYTHON_API_URL cfg @ ''/related-papers'')
       (JObj [(''path'', field b ''path''), (''limit'', js_or (field b ''limit'') (JNum 10))])"

definition post_api_related_papers :: "config \<Rightarrow> upstream \<Rightarrow> (string \<times> json) list \<Rightarrow> outcome" where
  "post_api_related_papers cfg up b =
     (let docPath = field b ''path'' in
      if \<not> truthy docPath
      then bad_request ''Document path is required''
      else forward up (related_papers_request cfg b))"

definition search_request :: "config \<Rightarrow> (string \<times> json) list \<Rightarrow> upstream_request" where
  "search_request cfg b =
     post_json (PYTHON_API_URL cfg @ ''/semantic-scholar/search'')
       (JObj [(''query'', field b ''query''), (''limit'', js_or (field b ''limit'') (JNum 10))])"

definition post_api_semantic_scholar_search ::
  "config \<Rightarrow> upstream \<Rightarrow> (string \<times> json) list \<Rightarrow> outcome" where
  "post_api_semantic_scholar_search cfg up b =
     (let query = field b ''query'' in
      if \<not> truthy query
      then bad_request ''Search query is required''
      else forward up (search_request cfg b))"

section \<open>Health check\<close>

text \<open>
  \<open>GET /api/health\<close>: one upstream \<open>GET\<close> with a timeout of 2000 ms; both branches
  answer with \<open>res.json\<close>. The time stamp \<open>new Date().toISOString()\<close> is given from
  outside.
\<close>

definition health_request :: "config \<Rightarrow> upstream_request" where
  "health_request cfg =
     \<lparr>req_method = GET, req_url = PYTHON_API_URL cfg @ ''/health'', req_data = NoBody,
      req_timeout = Some 2000\<rparr>"

definition get_api_health :: "config \<Rightarrow> upstream \<Rightarrow> string \<Rightarrow> outcome" where
  "get_api_health cfg up now_iso =
     (case up (health_request cfg) of
        Inr d \<Rightarrow>
          \<lparr>sent = res_json (JObj [(''status'', JStr ''ok''), (''python_api'', JStr ''connected''),
                                 (''timestamp'', JStr now_iso)]),
           forwarded = [health_request cfg]\<rparr>
      | Inl e \<Rightarrow>
          \<lparr>sent = res_json (JObj [(''status'', JStr ''ok''), (''python_api'', JStr ''disconnected''),
                                 (''error'', JStr (message e)), (''timestamp'', JStr now_iso)]),
           forwarded = [health_request cfg]\<rparr>)"

section \<open>Paths\<close>

text \<open>
  The functions of Node's \<open>path\<close> module that the server calls, on a POSIX host:
  \<open>normalize\<close>, \<open>join\<close>, \<open>resolve\<close> and \<open>extname\<close>. A path is cut at its slashes
  into segments; empty segments and \<open>.\<close> are dropped, \<open>..\<close> removes the segment before
  it unless there is none or it is \<open>..\<close> itself, in which case it is kept only where the
  path may climb above its start (a relative path).
\<close>

fun split_on :: "char \<Rightarrow> string \<Rightarrow> string list" where
  "split_on sep [] = [Nil]"
| "split_on sep (c # cs) =
     (if c = sep then [] # split_on sep cs
      else (case split_on sep cs of
              [] \<Rightarrow> [c # Nil]
            | seg # segs \<Rightarrow> (c # seg) # segs))"

fun intercalate :: "string \<Rightarrow> string list \<Rightarrow> string" where
  "intercalate sep [] = []"
| "intercalate sep [x] = x"
| "intercalate sep (x # y # ys) = x @ sep @ intercalate sep (y # ys)"

definition normalize_step :: "bool \<Rightarrow> string list \<Rightarrow> string \<Rightarrow> string list" where
  "normalize_step allowAboveRoot res seg =
     (if seg = [] \<or> seg = ''.'' then res
      else if seg = ''..'' then
        (if res \<noteq> [] \<and> last res \<noteq> ''..'' then butlast res
         else if allowAboveRoot then res @ [''..'']
         else res)
      else res @ [seg])"

definition normalizeString :: "string \<Rightarrow> bool \<Rightarrow> string" where
  "normalizeString p allowAboveRoot =
     intercalate ''/'' (foldl (normalize_step allowAboveRoot) [] (split_on CHR ''/'' p))"

definition isAbsolute :: "string \<Rightarrow> bool" where
  "isAbsolute p = (p \<noteq> [] \<and> hd p = CHR ''/'')"

definition path_normalize :: "string \<Rightarrow> string" where
  "path_normalize p =
     (if p = [] then ''.''
      else
        (let trailingSeparator = (last p = CHR ''/'');
             q = normalizeString p (\<not> isAbsolute p) in
         if q = [] then
           (if isAbsolute p then ''/'' else if trailingSeparator then ''./'' else ''.'')
         else
           (let q' = (if trailingSeparator then q @ ''/'' else q) in
            if isAbsolute p then ''/'' @ q' else q')))"

definition path_join :: "string list \<Rightarrow> string" where
  "path_join args =
     (case filter (\<lambda>a. a \<noteq> []) args of
        [] \<Rightarrow> ''.''
      | parts \<Rightarrow> path_normalize (intercalate ''/'' parts))"

text \<open>
  \<open>resolve\<close> walks its arguments from the right, and then the working directory, until
  the path built so far is absolute; empty arguments are skipped.
\<close>

fun resolve_loop :: "string list \<Rightarrow> string \<Rightarrow> string" where
  "resolve_loop [] resolved = resolved"
| "resolve_loop (p # ps) resolved =
     (if p = [] then resolve_loop ps resolved
      else if isAbsolute p then p @ ''/'' @ resolved
      else resolve_loop ps (p @ ''/'' @ resolved))"

definition path_resolve :: "string \<Rightarrow> string list \<Rightarrow> string" where
  "path_resolve working_dir args =
     (let resolvedPath = resolve_loop (rev args @ [working_dir]) [];
          resolvedAbsolute = isAbsolute resolvedPath;
          q = normalizeString resolvedPath (\<not> resolvedAbsolute) in
      if resolvedAbsolute then ''/'' @ q
      else if q \<noteq> [] then q else ''.'')"

text \<open>
  \<open>extname\<close>: the part of the last segment (trailing slashes aside) from its last dot
  on; empty when there is no dot, when the only dot starts the segment, or when the
  segment is \<open>..\<close>.
\<close>

definition basename_of :: "string \<Rightarrow> string" where
  "basename_of p =
     (let stripped = rev (dropWhile (\<lambda>c. c = CHR ''/'') (rev p)) in
      rev (takeWhile (\<lambda>c. c \<noteq> CHR ''/'') (rev stripped)))"

definition path_extname :: "string \<Rightarrow> string" where
  "path_extname p =
     (let b = basename_of p;
          ext = rev (takeWhile (\<lambda>c. c \<noteq> CHR ''.'') (rev b));
          stem = take (length b - length ext - 1) b in
      if CHR ''.'' \<notin> set b then []
      else if stem = [] then []
      else if b = ''..'' then []
      else CHR ''.'' # ext)"

text \<open>
  \<open>UPLOADS_DIR = path.join(__dirname, '..', 'uploads')\<close>.
\<close>

definition UPLOADS_DIR :: "config \<Rightarrow> string" where
  "UPLOADS_DIR cfg = path_join [dirname cfg, ''..'', ''uploads'']"

section \<open>The file system\<close>

text \<open>
  The part of the file system the server touches, as a state: a list of the entries
  that exist, each under its path (normalized, without a trailing slash). An entry is a
  file, a directory, or a symbolic link whose target does not exist: a directory lists
  such a link, \<open>unlink\<close> removes it, and \<open>access\<close> and \<open>stat\<close>, which follow links, fail
  on it. A link whose target exists behaves as its target for the calls made here and
  is not told apart from it. A path with a trailing slash leads to a node only when the
  node is a directory. Permissions are not modelled: a node that exists is accessible.
\<close>

record file_stats =
  st_size :: nat
  st_mtime_ms :: int

datatype node = File file_stats | Directory file_stats | DanglingLink

type_synonym filesystem = "(string \<times> node) list"

text \<open>The file or directory a path leads to, links followed; none through a dangling link.\<close>

definition node_at :: "filesystem \<Rightarrow> string \<Rightarrow> node option" where
  "node_at fs p =
     (if 1 < length p \<and> last p = CHR ''/'' then
        (case map_of fs (butlast p) of
           Some (Directory s) \<Rightarrow> Some (Directory s)
         | _ \<Rightarrow> None)
      else
        (case map_of fs p of
           Some (File s) \<Rightarrow> Some (File s)
         | Some (Directory s) \<Rightarrow> Some (Directory s)
         | _ \<Rightarrow> None))"

text \<open>The errors of the \<open>fs\<close> calls, with the messages Node gives them.\<close>

definition fs_error :: "string \<Rightarrow> string \<Rightarrow> string \<Rightarrow> js_error" where
  "fs_error what syscall p =
     \<lparr>message = what @ '', '' @ syscall @ '' '' @ [CHR 0x27] @ p @ [CHR 0x27], response = None\<rparr>"

definition fs_access :: "filesystem \<Rightarrow> string \<Rightarrow> js_error + unit" where
  "fs_access fs p =
     (case node_at fs p of
        None \<Rightarrow> Inl (fs_error ''ENOENT: no such file or directory'' ''access'' p)
      | Some _ \<Rightarrow> Inr ())"

text \<open>\<open>unlink\<close> does not follow a link: it removes the link itself.\<close>

definition fs_unlink :: "filesystem \<Rightarrow> string \<Rightarrow> js_error + filesystem" where
  "fs_unlink fs p =
     (case node_at fs p of
        Some (Directory _) \<Rightarrow> Inl (fs_error ''EISDIR: illegal operation on a directory'' ''unlink'' p)
      | Some (File _) \<Rightarrow> Inr (filter (\<lambda>(q, n). q \<noteq> p) fs)
      | _ \<Rightarrow>
          if map_of fs p = Some DanglingLink then Inr (filter (\<lambda>(q, n). q \<noteq> p) fs)
          else Inl (fs_error ''ENOENT: no such file or directory'' ''unlink'' p))"




section \<open>Listing the uploads\<close>







section \<open>Percent-encoding\<close>

text \<open>
  \<open>decodeURIComponent\<close> and \<open>encodeURIComponent\<close> on strings held as their UTF-8
  bytes. Decoding first cuts the string into literal characters and escapes \<open>%XX\<close>,
  then checks that the escaped bytes at and above 0x80 form well-formed UTF-8
  sequences; a stray \<open>%\<close> or an ill-formed sequence is the \<open>URIError\<close>
  \<open>URI malformed\<close>, here \<open>None\<close>.
\<close>

definition hex_val :: "char \<Rightarrow> nat option" where
  "hex_val c =
     (let n = (of_char c :: nat) in
      if 48 \<le> n \<and> n \<le> 57 then Some (n - 48)
      else if 65 \<le> n \<and> n \<le> 70 then Some (n - 55)
      else if 97 \<le> n \<and> n \<le> 102 then Some (n - 87)
      else None)"

datatype uri_token = Lit char | Esc nat

fun uri_tokens :: "string \<Rightarrow> uri_token list option" where
  "uri_tokens [] = Some []"
| "uri_tokens (c # cs) =
     (if c \<noteq> CHR ''%'' then map_option (Cons (Lit c)) (uri_tokens cs)
      else (case cs of
              h # l # rest \<Rightarrow>
                (case (hex_val h, hex_val l) of
                   (Some a, Some b) \<Rightarrow> map_option (Cons (Esc (16 * a + b))) (uri_tokens rest)
                 | _ \<Rightarrow> None)
            | _ \<Rightarrow> None))"

definition continuation :: "nat \<Rightarrow> bool" where
  "continuation b = (128 \<le> b \<and> b < 192)"

text \<open>The well-formed UTF-8 byte sequences of two, three and four bytes.\<close>

definition utf8_2 :: "nat \<Rightarrow> nat \<Rightarrow> bool" where
  "utf8_2 b1 b2 = (194 \<le> b1 \<and> b1 \<le> 223 \<and> continuation b2)"

definition utf8_3 :: "nat \<Rightarrow> nat \<Rightarrow> nat \<Rightarrow> bool" where
  "utf8_3 b1 b2 b3 =
     (224 \<le> b1 \<and> b1 \<le> 239 \<and> continuation b2 \<and> continuation b3
      \<and> (b1 = 224 \<longrightarrow> 160 \<le> b2) \<and> (b1 = 237 \<longrightarrow> b2 \<le> 159))"

definition utf8_4 :: "nat \<Rightarrow> nat \<Rightarrow> nat \<Rightarrow> nat \<Rightarrow> bool" where
  "utf8_4 b1 b2 b3 b4 =
     (240 \<le> b1 \<and> b1 \<le> 244 \<and> continuation b2 \<and> continuation b3 \<and> continuation b4
      \<and> (b1 = 240 \<longrightarrow> 144 \<le> b2) \<and> (b1 = 244 \<longrightarrow> b2 \<le> 143))"

fun decode_tokens :: "uri_token list \<Rightarrow> string option" where
  "decode_tokens [] = Some []"
| "decode_tokens (Lit c # ts) = map_option (Cons c) (decode_tokens ts)"
| "decode_tokens (Esc b # ts) =
     (if b < 128 then map_option (Cons (char_of b)) (decode_tokens ts)
      else if b < 192 then None
      else if b < 224 then
        (case ts of
           Esc b2 # rest \<Rightarrow>
             if utf8_2 b b2
             then map_option (\<lambda>r. char_of b # char_of b2 # r) (decode_tokens rest)
             else None
         | _ \<Rightarrow> None)
      else if b < 240 then
        (case ts of
           Esc b2 # Esc b3 # rest \<Rightarrow>
             if utf8_3 b b2 b3
             then map_option (\<lambda>r. char_of b # char_of b2 # char_of b3 # r) (decode_tokens rest)
             else None
         | _ \<Rightarrow> None)
      else if b < 248 then
        (case ts of
           Esc b2 # Esc b3 # Esc b4 # rest \<Rightarrow>
             if utf8_4 b b2 b3 b4
             then map_option (\<lambda>r. char_of b # char_of b2 # char_of b3 # char_of b4 # r)
                    (decode_tokens rest)
             else None
         | _ \<Rightarrow> None)
      else None)"

definition uri_error :: js_error where
  "uri_error = \<lparr>message = ''URI malformed'', response = None\<rparr>"

definition decodeURIComponent :: "string \<Rightarrow> js_error + string" where
  "decodeURIComponent s =
     (case Option.bind (uri_tokens s) decode_tokens of
        None \<Rightarrow> Inl uri_error
      | Some r \<Rightarrow> Inr r)"

definition unreserved :: "char \<Rightarrow> bool" where
  "unreserved c =
     (let n = (of_char c :: nat) in
      (48 \<le> n \<and> n \<le> 57) \<or> (65 \<le> n \<and> n \<le> 90) \<or> (97 \<le> n \<and> n \<le> 122)
      \<or> c \<in> set ''-_.!~*()'' \<or> n = 39)"

definition hex_digit :: "nat \<Rightarrow> char" where
  "hex_digit n = ''0123456789ABCDEF'' ! (n mod 16)"

definition encodeURIComponent :: "string \<Rightarrow> string" where
  "encodeURIComponent s =
     concat (map (\<lambda>c. if unreserved c then [c]
                       else [CHR ''%'', hex_digit ((of_char c :: nat) div 16),
                             hex_digit ((of_char c :: nat) mod 16)]) s)"

section \<open>Deleting an upload\<close>

text \<open>
  \<open>DELETE /api/uploads/:filename\<close>. The three candidate paths, then the loop that
  keeps the first candidate for which \<open>fs.access\<close> succeeds.
\<close>

definition possiblePaths :: "config \<Rightarrow> string \<Rightarrow> string list" where
  "possiblePaths cfg filename =
     [path_join [UPLOADS_DIR cfg, filename],
      path_join [dirname cfg, ''..'', ''uploads'', filename],
      path_resolve (cwd cfg) [UPLOADS_DIR cfg, filename]]"

fun first_accessible :: "filesystem \<Rightarrow> string list \<Rightarrow> string option" where
  "first_accessible fs [] = None"
| "first_accessible fs (testPath # rest) =
     (case fs_access fs testPath of
        Inr _ \<Rightarrow> Some testPath
      | Inl err \<Rightarrow> first_accessible fs rest)"

definition delete_request :: "config \<Rightarrow> string \<Rightarrow> upstream_request" where
  "delete_request cfg filename =
     \<lparr>req_method = DELETE,
      req_url = PYTHON_API_URL cfg @ ''/uploads/'' @ encodeURIComponent filename,
      req_data = NoBody, req_timeout = Some 2000\<rparr>"

definition not_found_message :: "config \<Rightarrow> string \<Rightarrow> string" where
  "not_found_message cfg filename =
     ''File not found: '' @ filename @ ''. Checked paths: ''
       @ intercalate '', '' (possiblePaths cfg filename)"

text \<open>
  The handler takes the route parameter as Express hands it over, and the file system;
  it returns the file system it leaves behind. The outer \<open>catch\<close> answers 500 with
  \<open>error.message || 'Failed to delete file'\<close>; the only statement of the \<open>try\<close> block
  that can throw outside an inner \<open>try\<close> is the decoding of the parameter.
\<close>

definition delete_api_uploads ::
  "config \<Rightarrow> upstream \<Rightarrow> filesystem \<Rightarrow> string \<Rightarrow> outcome \<times> filesystem" where
  "delete_api_uploads cfg up fs param =
     (case decodeURIComponent param of
        Inl error \<Rightarrow>
          (\<lparr>sent = res_status_json 500
                     (JObj [(''error'', js_or (JStr (message error)) (JStr ''Failed to delete file''))]),
            forwarded = []\<rparr>, fs)
      | Inr filename \<Rightarrow>
          (case first_accessible fs (possiblePaths cfg filename) of
             None \<Rightarrow>
               (\<lparr>sent = res_status_json 404 (JObj [(''error'', JStr (not_found_message cfg filename))]),
                 forwarded = []\<rparr>, fs)
           | Some filePath \<Rightarrow>
               (case fs_unlink fs filePath of
                  Inl unlinkError \<Rightarrow>
                    (\<lparr>sent = res_status_json 500
                              (JObj [(''error'', JStr (''Failed to delete file: '' @ message unlinkError))]),
                      forwarded = []\<rparr>, fs)
                | Inr fs' \<Rightarrow>
                    (case up (delete_request cfg filename) of
                       Inr d \<Rightarrow>
                         (\<lparr>sent = res_json (JObj [(''message'', JStr ''File deleted successfully''),
                                                 (''filename'', JStr filename)]),
                           forwarded = [delete_request cfg filename]\<rparr>, fs')
                     | Inl apiError \<Rightarrow>
                         (\<lparr>sent = res_json (JObj [(''message'', JStr ''File deleted successfully''),
                                                 (''filename'', JStr filename)]),
                           forwarded = [delete_request cfg filename]\<rparr>, fs')))))"

section \<open>Ingest\<close>

text \<open>
  The file objects that the upload middleware leaves in \<open>req.files\<close>, and the handler
  of \<open>POST /api/ingest\<close> that runs after it. \<open>req.files\<close> is undefined (\<open>None\<close>) when the
  request was not a multipart one. Building the form opens each file lazily and does
  not throw, so the outer \<open>catch\<close> of the handler (a 500) is not reached; the inner
  one, around the upstream call, is.
\<close>

record multer_file =
  mf_fieldname :: string
  mf_originalname :: string
  mf_mimetype :: string
  mf_destination :: string
  mf_filename :: string
  mf_path :: string
  mf_size :: nat

definition ingest_form :: "multer_file list \<Rightarrow> payload" where
  "ingest_form files =
     FormBody (map (\<lambda>file. \<lparr>part_field = ''files'', part_stream_path = mf_path file,
                             part_filename = mf_originalname file,
                             part_content_type = ''application/pdf''\<rparr>) files)"

definition ingest_request :: "config \<Rightarrow> multer_file list \<Rightarrow> upstream_request" where
  "ingest_request cfg files =
     \<lparr>req_method = POST, req_url = PYTHON_API_URL cfg @ ''/ingest'',
      req_data = ingest_form files, req_timeout = None\<rparr>"

definition ingested_entry :: "multer_file \<Rightarrow> json" where
  "ingested_entry f =
     JObj [(''file'', JStr (mf_originalname f)), (''path'', JStr (mf_path f)),
           (''ingested_pages'', JStr ''unknown'')]"

definition post_api_ingest :: "config \<Rightarrow> upstream \<Rightarrow> multer_file list option \<Rightarrow> outcome" where
  "post_api_ingest cfg up req_files =
     (case req_files of
        None \<Rightarrow> bad_request ''No files uploaded''
      | Some files \<Rightarrow>
          if length files = 0 then bad_request ''No files uploaded''
          else
            (case up (ingest_request cfg files) of
               Inr d \<Rightarrow> \<lparr>sent = res_json d, forwarded = [ingest_request cfg files]\<rparr>
             | Inl apiError \<Rightarrow>
                 \<lparr>sent = res_json (JObj [(''ingested'', JArr (map ingested_entry files))]),
                  forwarded = [ingest_request cfg files]\<rparr>))"

subsection \<open>The upload middleware\<close>

text \<open>
  The configuration the server gives to the upload middleware: the file filter, the
  size limit, the name under which a file is stored, and the field and count of
  \<open>upload.array('files', 10)\<close>.
\<close>

record incoming_file =
  in_fieldname :: string
  in_originalname :: string
  in_mimetype :: string
  in_bytes :: nat

definition fileFilter :: "incoming_file \<Rightarrow> js_error + bool" where
  "fileFilter file =
     (if in_mimetype file = ''application/pdf'' then Inr True
      else Inl \<lparr>message = ''Only PDF files are allowed'', response = None\<rparr>)"

definition limits_fileSize :: nat where
  "limits_fileSize = 50 * 1024 * 1024"

definition array_fieldname :: string where
  "array_fieldname = ''files''"

definition array_maxCount :: nat where
  "array_maxCount = 10"

definition digit_char :: "nat \<Rightarrow> char" where
  "digit_char n = ''0123456789'' ! (n mod 10)"

function string_of_nat :: "nat \<Rightarrow> string" where
  "string_of_nat n =
     (if n < 10 then [digit_char n]
      else string_of_nat (n div 10) @ [digit_char (n mod 10)])"
  by pat_completeness auto
termination
  by (relation "measure id") auto

declare string_of_nat.simps [simp del]

text \<open>
  \<open>uniqueSuffix + path.extname(file.originalname)\<close> with
  \<open>uniqueSuffix = Date.now() + '-' + Math.round(Math.random() * 1E9)\<close>; the clock
  reading and the rounded random number are given from outside.
\<close>

definition storage_filename :: "nat \<times> nat \<Rightarrow> incoming_file \<Rightarrow> string" where
  "storage_filename now_rnd file =
     string_of_nat (fst now_rnd) @ ''-'' @ string_of_nat (snd now_rnd)
       @ path_extname (in_originalname file)"

definition storage_destination :: "config \<Rightarrow> string" where
  "storage_destination cfg = UPLOADS_DIR cfg"

text \<open>
  What the upload middleware hands on: an error for the error handler of the framework
  (the route handler then does not run), or the files for \<open>req.files\<close>; and the file
  system it leaves behind.
\<close>

datatype upload_error =
    LIMIT_UNEXPECTED_FILE string
  | LIMIT_FILE_SIZE string
  | FILTER_ERROR js_error

datatype upload_result =
    Rejected upload_error filesystem
  | Accepted "multer_file list option" filesystem

datatype ingest_upload = NotMultipart | Multipart "incoming_file list"

definition fs_write :: "filesystem \<Rightarrow> string \<Rightarrow> file_stats \<Rightarrow> filesystem" where
  "fs_write fs p stats = (p, File stats) # filter (\<lambda>(q, n). q \<noteq> p) fs"

definition fs_remove :: "filesystem \<Rightarrow> string \<Rightarrow> filesystem" where
  "fs_remove fs p = filter (\<lambda>(q, n). q \<noteq> p) fs"

definition stored_file :: "config \<Rightarrow> nat \<times> nat \<Rightarrow> incoming_file \<Rightarrow> multer_file" where
  "stored_file cfg now_rnd file =
     \<lparr>mf_fieldname = in_fieldname file, mf_originalname = in_originalname file,
      mf_mimetype = in_mimetype file, mf_destination = storage_destination cfg,
      mf_filename = storage_filename now_rnd file,
      mf_path = path_join [storage_destination cfg, storage_filename now_rnd file],
      mf_size = min (in_bytes file) limits_fileSize\<rparr>"

definition abort_upload :: "upload_error \<Rightarrow> multer_file list \<Rightarrow> filesystem \<Rightarrow> upload_result" where
  "abort_upload err uploaded fs = Rejected err (foldl fs_remove fs (map mf_path uploaded))"

text \<open>
  Modelled from the spec: the engine of the upload middleware (the \<open>multer\<close> package,
  which is not among the sources of this repository; only its configuration above is).
  The spec has it accept "up to a fixed count of files of a single allowed type under
  a size ceiling". The model follows the documented behaviour of the package: the file
  parts of a multipart request are taken in order; a part under another field, or one
  beyond the count, is refused as unexpected; then the file filter decides; an accepted
  part is written under the destination, and a part larger than the limit stops the
  upload; on any refusal every file written for the request is removed again and the
  error is passed on. \<open>abort_upload\<close> above and \<open>upload_array\<close> below belong to it.
\<close>

fun upload_files ::
  "config \<Rightarrow> (nat \<Rightarrow> nat \<times> nat) \<Rightarrow> nat \<Rightarrow> multer_file list \<Rightarrow> filesystem
     \<Rightarrow> incoming_file list \<Rightarrow> upload_result" where
  "upload_files cfg src filesLeft uploaded fs [] = Accepted (Some uploaded) fs"
| "upload_files cfg src filesLeft uploaded fs (file # rest) =
     (if in_fieldname file \<noteq> array_fieldname \<or> filesLeft = 0
      then abort_upload (LIMIT_UNEXPECTED_FILE (in_fieldname file)) uploaded fs
      else
        (case fileFilter file of
           Inl err \<Rightarrow> abort_upload (FILTER_ERROR err) uploaded fs
         | Inr False \<Rightarrow> upload_files cfg src (filesLeft - 1) uploaded fs rest
         | Inr True \<Rightarrow>
             (let now_rnd = src (length uploaded);
                  f = stored_file cfg now_rnd file;
                  fs' = fs_write fs (mf_path f)
                          \<lparr>st_size = mf_size f, st_mtime_ms = int (fst now_rnd)\<rparr> in
              if limits_fileSize < in_bytes file
              then abort_upload (LIMIT_FILE_SIZE (in_fieldname file)) (uploaded @ [f]) fs'
              else upload_files cfg src (filesLeft - 1) (uploaded @ [f]) fs' rest)))"

definition upload_array :: "config \<Rightarrow> (nat \<Rightarrow> nat \<times> nat) \<Rightarrow> filesystem \<Rightarrow> ingest_upload \<Rightarrow> upload_result" where
  "upload_array cfg src fs rq =
     (case rq of
        NotMultipart \<Rightarrow> Accepted None fs
      | Multipart files \<Rightarrow> upload_files cfg src array_maxCount [] fs files)"

section \<open>Sample configurations, services and stores\<close>

text \<open>Concrete inputs on which the properties below are evaluated.\<close>

definition cfg0 :: config where
  "cfg0 = \<lparr>env_PYTHON_API_URL = None, dirname = ''/srv/app/backend'', cwd = ''/srv/app''\<rparr>"

definition unreachable :: upstream where
  "unreachable rq =
     Inl \<lparr>message = ''connect ECONNREFUSED 127.0.0.1:8000'', response = None\<rparr>"

definition refusing :: upstream where
  "refusing rq =
     Inl \<lparr>message = ''Request failed with status code 404'',
          response = Some \<lparr>resp_status = 404,
                            resp_data = JObj [(''detail'', JStr ''Document not found'')]\<rparr>\<rparr>"

definition answering :: upstream where
  "answering rq = Inr (JObj [(''status'', JStr ''healthy'')])"

definition paper_upload :: multer_file where
  "paper_upload =
     \<lparr>mf_fieldname = ''files'', mf_originalname = ''paper.pdf'', mf_mimetype = ''application/pdf'',
      mf_destination = ''/srv/app/uploads'', mf_filename = ''17-40.pdf'',
      mf_path = ''/srv/app/uploads/17-40.pdf'', mf_size = 3\<rparr>"

definition sample_stats :: file_stats where
  "sample_stats = \<lparr>st_size = 5, st_mtime_ms = 1500\<rparr>"

definition store0 :: filesystem where
  "store0 = [(''/srv/app/uploads'', Directory sample_stats),
             (''/srv/app/uploads/1-2.pdf'', File sample_stats),
             (''/srv/app/uploads/notes.txt'', File sample_stats)]"


definition pdf_part :: incoming_file where
  "pdf_part = \<lparr>in_fieldname = ''files'', in_originalname = ''paper.pdf'',
                in_mimetype = ''application/pdf'', in_bytes = 3\<rparr>"

definition text_part :: incoming_file where
  "text_part = \<lparr>in_fieldname = ''files'', in_originalname = ''notes.txt'',
                in_mimetype = ''text/plain'', in_bytes = 3\<rparr>"

definition clock0 :: "nat \<Rightarrow> nat \<times> nat" where
  "clock0 i = (17, 40 + i)"

section \<open>Properties\<close>

lemmas passthrough_defs =
  post_api_document_ask_def post_api_synthesis_def post_api_layman_def
  post_api_related_papers_def post_api_semantic_scholar_search_def

lemma PYTHON_API_URL_cfg0: "PYTHON_API_URL cfg0 = ''http://localhost:8000''"
  by (simp add: PYTHON_API_URL_def cfg0_def)

subsection \<open>Required fields\<close>

text \<open>
  C2: a request to the question-answering, synthesis, summarization, related-papers or
  citation-search endpoint that omits a required field (the document path for the
  first, third and fourth, the question for the first, the query for the second and
  fifth) is answered with status 400 and a JSON body holding an error message, and
  nothing is forwarded upstream. The handler returns a reply: it does not raise.
\<close>

theorem missing_required_field_is_400:
  "(field b ''path'' = JUndefined \<or> field b ''question'' = JUndefined \<longrightarrow>
      post_api_document_ask cfg up b =
        \<lparr>sent = \<lparr>status = 400,
                  body = JObj [(''error'', JStr ''Document path and question are required'')]\<rparr>,
         forwarded = []\<rparr>)
   \<and> (field b ''query'' = JUndefined \<longrightarrow>
      post_api_synthesis cfg up b =
        \<lparr>sent = \<lparr>status = 400, body = JObj [(''error'', JStr ''Query is required'')]\<rparr>,
         forwarded = []\<rparr>)
   \<and> (field b ''path'' = JUndefined \<longrightarrow>
      post_api_layman cfg up b =
        \<lparr>sent = \<lparr>status = 400, body = JObj [(''error'', JStr ''Document path is required'')]\<rparr>,
         forwarded = []\<rparr>)
   \<and> (field b ''path'' = JUndefined \<longrightarrow>
      post_api_related_papers cfg up b =
        \<lparr>sent = \<lparr>status = 400, body = JObj [(''error'', JStr ''Document path is required'')]\<rparr>,
         forwarded = []\<rparr>)
   \<and> (field b ''query'' = JUndefined \<longrightarrow>
      post_api_semantic_scholar_search cfg up b =
        \<lparr>sent = \<lparr>status = 400, body = JObj [(''error'', JStr ''Search query is required'')]\<rparr>,
         forwarded = []\<rparr>)"
  by (simp add: passthrough_defs bad_request_def res_status_json_def Let_def)

text \<open>A question without a document path, sent to the first and the third endpoint.\<close>

theorem missing_required_field_is_400_witness:
  "field [(''question'', JStr ''What is the method?'')] ''path'' = JUndefined
   \<and> post_api_document_ask cfg0 answering [(''question'', JStr ''What is the method?'')] =
        \<lparr>sent = \<lparr>status = 400,
                  body = JObj [(''error'', JStr ''Document path and question are required'')]\<rparr>,
         forwarded = []\<rparr>
   \<and> post_api_layman cfg0 answering [(''question'', JStr ''What is the method?'')] =
        \<lparr>sent = \<lparr>status = 400, body = JObj [(''error'', JStr ''Document path is required'')]\<rparr>,
         forwarded = []\<rparr>"
proof -
  have h: "field [(''question'', JStr ''What is the method?'')] ''path'' = JUndefined"
    by (simp add: field_def)
  from missing_required_field_is_400
         [of "[(''question'', JStr ''What is the method?'')]" cfg0 answering] h
  show ?thesis by blast
qed

subsection \<open>Health check\<close>

text \<open>
  C6: whatever the upstream does with the health ping (answer, fail, time out), the
  proxy answers 200 with a JSON body whose \<open>status\<close> is \<open>ok\<close> and whose \<open>python_api\<close> is
  \<open>connected\<close> when the ping succeeded and \<open>disconnected\<close> otherwise.
\<close>

theorem health_check_never_fails:
  "status (sent (get_api_health cfg up now_iso)) = 200
   \<and> opt_prop (body (sent (get_api_health cfg up now_iso))) ''status'' = JStr ''ok''
   \<and> opt_prop (body (sent (get_api_health cfg up now_iso))) ''python_api'' =
       (case up \<lparr>req_method = GET, req_url = PYTHON_API_URL cfg @ ''/health'', req_data = NoBody,
                  req_timeout = Some 2000\<rparr> of
          Inr d \<Rightarrow> JStr ''connected''
        | Inl e \<Rightarrow> JStr ''disconnected'')"
  by (simp add: get_api_health_def health_request_def res_json_def field_def split: sum.split)

theorem health_check_never_fails_witness:
  "status (sent (get_api_health cfg0 unreachable ''2026-01-01T00:00:00.000Z'')) = 200
   \<and> opt_prop (body (sent (get_api_health cfg0 unreachable ''2026-01-01T00:00:00.000Z'')))
        ''python_api'' = JStr ''disconnected''
   \<and> opt_prop (body (sent (get_api_health cfg0 answering ''2026-01-01T00:00:00.000Z'')))
        ''python_api'' = JStr ''connected''"
  using health_check_never_fails [of cfg0 unreachable "''2026-01-01T00:00:00.000Z''"]
        health_check_never_fails [of cfg0 answering "''2026-01-01T00:00:00.000Z''"]
  by (simp add: unreachable_def answering_def)

subsection \<open>Ingest\<close>

text \<open>
  C9: an ingest request without files (\<open>req.files\<close> undefined, or an empty list) is
  answered with status 400 and the error message \<open>No files uploaded\<close>, and nothing is
  forwarded to the upstream ingest endpoint.
\<close>

theorem ingest_without_files_is_400:
  "post_api_ingest cfg up None =
     \<lparr>sent = \<lparr>status = 400, body = JObj [(''error'', JStr ''No files uploaded'')]\<rparr>,
      forwarded = []\<rparr>
   \<and> post_api_ingest cfg up (Some []) =
     \<lparr>sent = \<lparr>status = 400, body = JObj [(''error'', JStr ''No files uploaded'')]\<rparr>,
      forwarded = []\<rparr>"
  by (simp add: post_api_ingest_def bad_request_def res_status_json_def)

theorem ingest_without_files_is_400_witness:
  "post_api_ingest cfg0 answering None =
     \<lparr>sent = \<lparr>status = 400, body = JObj [(''error'', JStr ''No files uploaded'')]\<rparr>,
      forwarded = []\<rparr>"
  using ingest_without_files_is_400 [of cfg0 answering] by simp

text \<open>
  C5: when the request carries at least one accepted file and the call to the upstream
  ingest endpoint fails, the proxy still answers 200, with one entry per uploaded file,
  in order, giving the original name of the file, its local storage path, and
  \<open>unknown\<close> as the number of ingested pages.
\<close>

theorem ingest_upstream_failure_reports_local_paths:
  assumes "files \<noteq> []" and "up (ingest_request cfg files) = Inl apiError"
  shows "sent (post_api_ingest cfg up (Some files)) =
           \<lparr>status = 200,
            body = JObj [(''ingested'',
                     JArr (map (\<lambda>f. JObj [(''file'', JStr (mf_originalname f)),
                                            (''path'', JStr (mf_path f)),
                                            (''ingested_pages'', JStr ''unknown'')]) files))]\<rparr>"
  using assms by (simp add: post_api_ingest_def res_json_def ingested_entry_def)

theorem ingest_upstream_failure_reports_local_paths_witness:
  "[paper_upload] \<noteq> []
   \<and> unreachable (ingest_request cfg0 [paper_upload])
       = Inl \<lparr>message = ''connect ECONNREFUSED 127.0.0.1:8000'', response = None\<rparr>
   \<and> sent (post_api_ingest cfg0 unreachable (Some [paper_upload])) =
        \<lparr>status = 200,
         body = JObj [(''ingested'',
                  JArr [JObj [(''file'', JStr ''paper.pdf''),
                              (''path'', JStr ''/srv/app/uploads/17-40.pdf''),
                              (''ingested_pages'', JStr ''unknown'')]])]\<rparr>"
proof -
  have h1: "[paper_upload] \<noteq> []" by simp
  have h2: "unreachable (ingest_request cfg0 [paper_upload])
              = Inl \<lparr>message = ''connect ECONNREFUSED 127.0.0.1:8000'', response = None\<rparr>"
    by (simp add: unreachable_def)
  from ingest_upstream_failure_reports_local_paths
         [of "[paper_upload]" unreachable cfg0, OF h1 h2] h2
  show ?thesis by (simp add: paper_upload_def)
qed

subsection \<open>Upstream failures of the passthrough endpoints\<close>

text \<open>
  C8: when the required fields of a passthrough request (question-answering, synthesis,
  summarization, related-papers, citation search) are present and the upstream call
  fails, the reply carries the upstream status when the error has a response with a
  status, and 500 otherwise; its error message is the \<open>detail\<close> of the upstream error
  payload when there is one (a value that is not falsy), and the message of the local
  error otherwise.
\<close>

theorem upstream_failure_is_mapped:
  assumes "up rq = Inl e"
    and "expected =
          \<lparr>status = (case response e of
                       None \<Rightarrow> 500
                     | Some r \<Rightarrow> if resp_status r = 0 then 500 else resp_status r),
           body = JObj [(''error'',
                    (case response e of
                       None \<Rightarrow> JStr (message e)
                     | Some r \<Rightarrow>
                         if truthy (opt_prop (resp_data r) ''detail'')
                         then opt_prop (resp_data r) ''detail''
                         else JStr (message e)))]\<rparr>"
  shows "(rq = post_json (PYTHON_API_URL cfg @ ''/document/ask'')
                 (JObj [(''path'', field b ''path''), (''question'', field b ''question'')])
            \<and> truthy (field b ''path'') \<and> truthy (field b ''question'')
          \<longrightarrow> sent (post_api_document_ask cfg up b) = expected)
       \<and> (rq = post_json (PYTHON_API_URL cfg @ ''/synthesis'') (JObj [(''query'', field b ''query'')])
            \<and> truthy (field b ''query'')
          \<longrightarrow> sent (post_api_synthesis cfg up b) = expected)
       \<and> (rq = post_json (PYTHON_API_URL cfg @ ''/layman'') (JObj [(''path'', field b ''path'')])
            \<and> truthy (field b ''path'')
          \<longrightarrow> sent (post_api_layman cfg up b) = expected)
       \<and> (rq = post_json (PYTHON_API_URL cfg @ ''/related-papers'')
                 (JObj [(''path'', field b ''path''),
                        (''limit'', js_or (field b ''limit'') (JNum 10))])
            \<and> truthy (field b ''path'')
          \<longrightarrow> sent (post_api_related_papers cfg up b) = expected)
       \<and> (rq = post_json (PYTHON_API_URL cfg @ ''/semantic-scholar/search'')
                 (JObj [(''query'', field b ''query''),
                        (''limit'', js_or (field b ''limit'') (JNum 10))])
            \<and> truthy (field b ''query'')
          \<longrightarrow> sent (post_api_semantic_scholar_search cfg up b) = expected)"
proof -
  have c: "catch_upstream e = expected"
    unfolding assms(2)
    by (simp add: catch_upstream_def res_status_json_def error_status_def error_detail_def
          js_or_def split: option.split)
  have f: "forward up rq = \<lparr>sent = expected, forwarded = [rq]\<rparr>"
    using assms(1) c by (simp add: forward_def)
  show ?thesis
    using f
    by (auto simp: post_api_document_ask_def post_api_synthesis_def post_api_layman_def
  post_api_related_papers_def post_api_semantic_scholar_search_def Let_def ask_request_def synthesis_request_def layman_request_def
          related_papers_request_def search_request_def)
qed

text \<open>
  An upstream that answers 404 with a detail, and an upstream that cannot be reached.
\<close>

theorem upstream_failure_is_mapped_witness:
  "sent (post_api_layman cfg0 refusing [(''path'', JStr ''/srv/app/uploads/17-40.pdf'')]) =
     \<lparr>status = 404, body = JObj [(''error'', JStr ''Document not found'')]\<rparr>
   \<and> sent (post_api_synthesis cfg0 unreachable [(''query'', JStr ''graph neural networks'')]) =
     \<lparr>status = 500, body = JObj [(''error'', JStr ''connect ECONNREFUSED 127.0.0.1:8000'')]\<rparr>"
proof -
  let ?b1 = "[(''path'', JStr ''/srv/app/uploads/17-40.pdf'')]"
  let ?b2 = "[(''query'', JStr ''graph neural networks'')]"
  let ?rq1 = "post_json (PYTHON_API_URL cfg0 @ ''/layman'') (JObj [(''path'', field ?b1 ''path'')])"
  let ?rq2 = "post_json (PYTHON_API_URL cfg0 @ ''/synthesis'') (JObj [(''query'', field ?b2 ''query'')])"
  have r1: "refusing ?rq1 = Inl \<lparr>message = ''Request failed with status code 404'',
          response = Some \<lparr>resp_status = 404,
                            resp_data = JObj [(''detail'', JStr ''Document not found'')]\<rparr>\<rparr>"
    by (simp add: refusing_def)
  have r2: "unreachable ?rq2 = Inl \<lparr>message = ''connect ECONNREFUSED 127.0.0.1:8000'', response = None\<rparr>"
    by (simp add: unreachable_def)
  have t1: "truthy (field ?b1 ''path'')" by (simp add: field_def)
  have t2: "truthy (field ?b2 ''query'')" by (simp add: field_def)
  from upstream_failure_is_mapped [where up = refusing and rq = ?rq1 and cfg = cfg0 and b = ?b1, OF r1 refl] t1
  have "sent (post_api_layman cfg0 refusing ?b1) =
     \<lparr>status = 404, body = JObj [(''error'', JStr ''Document not found'')]\<rparr>"
    by (simp add: field_def)
  moreover from upstream_failure_is_mapped [where up = unreachable and rq = ?rq2 and cfg = cfg0 and b = ?b2, OF r2 refl] t2
  have "sent (post_api_synthesis cfg0 unreachable ?b2) =
     \<lparr>status = 500, body = JObj [(''error'', JStr ''connect ECONNREFUSED 127.0.0.1:8000'')]\<rparr>"
    by (simp add: field_def)
  ultimately show ?thesis by simp
qed

subsection \<open>The default limit\<close>

text \<open>
  C10: a related-papers or citation-search request is forwarded with limit 10 when the
  caller omits the limit or supplies a falsy value for it (undefined, null, false, 0
  or the empty string), and with the supplied limit, unchanged, when that is truthy. A
  request whose required field is missing is not forwarded at all.
\<close>

theorem limit_defaults_to_10:
  assumes "limit_sent = (if truthy (field b ''limit'') then field b ''limit'' else JNum 10)"
  shows "forwarded (post_api_related_papers cfg up b) =
           (if truthy (field b ''path'')
            then [\<lparr>req_method = POST, req_url = PYTHON_API_URL cfg @ ''/related-papers'',
                   req_data = JsonBody (JObj [(''path'', field b ''path''), (''limit'', limit_sent)]),
                   req_timeout = None\<rparr>]
            else [])
       \<and> forwarded (post_api_semantic_scholar_search cfg up b) =
           (if truthy (field b ''query'')
            then [\<lparr>req_method = POST, req_url = PYTHON_API_URL cfg @ ''/semantic-scholar/search'',
                   req_data = JsonBody (JObj [(''query'', field b ''query''), (''limit'', limit_sent)]),
                   req_timeout = None\<rparr>]
            else [])
       \<and> (field b ''limit'' \<in> {JUndefined, JNull, JBool False, JNum 0, JStr []}
            \<longrightarrow> limit_sent = JNum 10)
       \<and> (truthy (field b ''limit'') \<longrightarrow> limit_sent = field b ''limit'')"
  using assms
  by (auto simp: post_api_related_papers_def post_api_semantic_scholar_search_def Let_def
        forward_def related_papers_request_def search_request_def post_json_def js_or_def
        bad_request_def split: sum.split)

text \<open>A limit of 0 is replaced by 10; a limit of 25 is kept.\<close>

theorem limit_defaults_to_10_witness:
  "forwarded (post_api_related_papers cfg0 answering
       [(''path'', JStr ''/srv/app/uploads/17-40.pdf''), (''limit'', JNum 0)]) =
     [\<lparr>req_method = POST, req_url = ''http://localhost:8000/related-papers'',
       req_data = JsonBody (JObj [(''path'', JStr ''/srv/app/uploads/17-40.pdf''),
                                  (''limit'', JNum 10)]),
       req_timeout = None\<rparr>]
   \<and> forwarded (post_api_semantic_scholar_search cfg0 answering
       [(''query'', JStr ''transformers''), (''limit'', JNum 25)]) =
     [\<lparr>req_method = POST, req_url = ''http://localhost:8000/semantic-scholar/search'',
       req_data = JsonBody (JObj [(''query'', JStr ''transformers''), (''limit'', JNum 25)]),
       req_timeout = None\<rparr>]"
  using limit_defaults_to_10
          [where b = "[(''path'', JStr ''/srv/app/uploads/17-40.pdf''), (''limit'', JNum 0)]"
             and cfg = cfg0 and up = answering, OF refl]
        limit_defaults_to_10
          [where b = "[(''query'', JStr ''transformers''), (''limit'', JNum 25)]"
             and cfg = cfg0 and up = answering, OF refl]
  by (simp add: field_def PYTHON_API_URL_cfg0)

subsection \<open>Listing the uploads\<close>

















subsection \<open>Deleting an upload\<close>

lemma first_accessible_find:
  "first_accessible fs ps = List.find (\<lambda>p. node_at fs p \<noteq> None) ps"
  by (induction ps) (auto simp: fs_access_def split: option.splits)

lemma first_accessible_None:
  "first_accessible fs ps = None \<longleftrightarrow> (\<forall>p \<in> set ps. node_at fs p = None)"
  by (auto simp: first_accessible_find find_None_iff)

lemma map_of_filter_neq:
  "map_of (filter (\<lambda>(q, n). q \<noteq> p) fs) q = (if q = p then None else map_of fs q)"
  by (induction fs) auto

lemma fs_unlink_effect:
  assumes "fs_unlink fs p = Inr fs'"
  shows "map_of fs' p = None \<and> (\<forall>q. q \<noteq> p \<longrightarrow> map_of fs' q = map_of fs q)"
proof -
  from assms have "fs' = filter (\<lambda>(q, n). q \<noteq> p) fs"
    by (auto simp: fs_unlink_def split: option.splits node.splits if_splits)
  then show ?thesis by (simp add: map_of_filter_neq)
qed

text \<open>
  C3 (amended): for a delete request whose filename parameter decodes, the proxy checks
  three candidate paths in order and tries to unlink the first that exists. When none
  of them exists it answers 404 with an error message that names the file and lists the
  three checked paths, forwards nothing, and leaves the store as it was. When the
  unlink succeeds, that path and no other is removed from the store. When the unlink
  fails, it answers 500 with the reason and leaves the store as it was.
\<close>

theorem delete_tries_candidates_in_order:
  assumes "decodeURIComponent param = Inr filename"
    and "p1 = path_join [UPLOADS_DIR cfg, filename]"
    and "p2 = path_join [dirname cfg, ''..'', ''uploads'', filename]"
    and "p3 = path_resolve (cwd cfg) [UPLOADS_DIR cfg, filename]"
  shows "((\<forall>p \<in> {p1, p2, p3}. node_at fs p = None) \<longrightarrow>
            delete_api_uploads cfg up fs param =
              (\<lparr>sent = \<lparr>status = 404,
                        body = JObj [(''error'',
                                 JStr (''File not found: '' @ filename @ ''. Checked paths: ''
                                        @ p1 @ '', '' @ p2 @ '', '' @ p3))]\<rparr>,
                forwarded = []\<rparr>, fs))
       \<and> (\<forall>filePath fs'.
             List.find (\<lambda>p. node_at fs p \<noteq> None) [p1, p2, p3] = Some filePath
             \<and> fs_unlink fs filePath = Inr fs'
             \<longrightarrow> status (sent (fst (delete_api_uploads cfg up fs param))) = 200
                 \<and> snd (delete_api_uploads cfg up fs param) = fs'
                 \<and> map_of fs' filePath = None
                 \<and> (\<forall>q. q \<noteq> filePath \<longrightarrow> map_of fs' q = map_of fs q))
       \<and> (\<forall>filePath unlinkError.
             List.find (\<lambda>p. node_at fs p \<noteq> None) [p1, p2, p3] = Some filePath
             \<and> fs_unlink fs filePath = Inl unlinkError
             \<longrightarrow> delete_api_uploads cfg up fs param =
                   (\<lparr>sent = \<lparr>status = 500,
                             body = JObj [(''error'',
                                      JStr (''Failed to delete file: '' @ message unlinkError))]\<rparr>,
                     forwarded = []\<rparr>, fs))"
proof -
  have pp: "possiblePaths cfg filename = [p1, p2, p3]"
    by (simp add: possiblePaths_def assms(2-4))
  have none: "(\<forall>p \<in> {p1, p2, p3}. node_at fs p = None) \<Longrightarrow>
            delete_api_uploads cfg up fs param =
              (\<lparr>sent = \<lparr>status = 404,
                        body = JObj [(''error'',
                                 JStr (''File not found: '' @ filename @ ''. Checked paths: ''
                                        @ p1 @ '', '' @ p2 @ '', '' @ p3))]\<rparr>,
                forwarded = []\<rparr>, fs)"
  proof -
    assume "\<forall>p \<in> {p1, p2, p3}. node_at fs p = None"
    then have "\<forall>p \<in> set (possiblePaths cfg filename). node_at fs p = None"
      by (simp add: pp)
    then have "first_accessible fs (possiblePaths cfg filename) = None"
      by (simp only: first_accessible_None)
    then show ?thesis
      using assms(1)
      by (simp add: delete_api_uploads_def res_status_json_def not_found_message_def pp)
  qed
  have ok: "List.find (\<lambda>p. node_at fs p \<noteq> None) [p1, p2, p3] = Some filePath
             \<Longrightarrow> fs_unlink fs filePath = Inr fs'
             \<Longrightarrow> status (sent (fst (delete_api_uploads cfg up fs param))) = 200
                 \<and> snd (delete_api_uploads cfg up fs param) = fs'
                 \<and> map_of fs' filePath = None
                 \<and> (\<forall>q. q \<noteq> filePath \<longrightarrow> map_of fs' q = map_of fs q)" for filePath fs'
  proof -
    assume f: "List.find (\<lambda>p. node_at fs p \<noteq> None) [p1, p2, p3] = Some filePath"
      and u: "fs_unlink fs filePath = Inr fs'"
    from f have "first_accessible fs (possiblePaths cfg filename) = Some filePath"
      by (simp only: first_accessible_find pp)
    with u assms(1) have "status (sent (fst (delete_api_uploads cfg up fs param))) = 200
                 \<and> snd (delete_api_uploads cfg up fs param) = fs'"
      by (simp add: delete_api_uploads_def res_json_def split: sum.split)
    with fs_unlink_effect [OF u] show ?thesis by simp
  qed
  have bad: "List.find (\<lambda>p. node_at fs p \<noteq> None) [p1, p2, p3] = Some filePath
             \<Longrightarrow> fs_unlink fs filePath = Inl unlinkError
             \<Longrightarrow> delete_api_uploads cfg up fs param =
                   (\<lparr>sent = \<lparr>status = 500,
                             body = JObj [(''error'',
                                      JStr (''Failed to delete file: '' @ message unlinkError))]\<rparr>,
                     forwarded = []\<rparr>, fs)" for filePath unlinkError
  proof -
    assume f: "List.find (\<lambda>p. node_at fs p \<noteq> None) [p1, p2, p3] = Some filePath"
      and u: "fs_unlink fs filePath = Inl unlinkError"
    from f have "first_accessible fs (possiblePaths cfg filename) = Some filePath"
      by (simp only: first_accessible_find pp)
    with u assms(1) show ?thesis
      by (simp add: delete_api_uploads_def res_status_json_def)
  qed
  from none ok bad show ?thesis by blast
qed

lemma decode_missing: "decodeURIComponent ''nope.pdf'' = Inr ''nope.pdf''" by code_simp
lemma candidates_missing:
  "path_join [UPLOADS_DIR cfg0, ''nope.pdf''] = ''/srv/app/uploads/nope.pdf''"
  "path_join [dirname cfg0, ''..'', ''uploads'', ''nope.pdf''] = ''/srv/app/uploads/nope.pdf''"
  "path_resolve (cwd cfg0) [UPLOADS_DIR cfg0, ''nope.pdf''] = ''/srv/app/uploads/nope.pdf''"
  by code_simp+
lemma missing_is_absent: "node_at store0 ''/srv/app/uploads/nope.pdf'' = None" by code_simp

text \<open>A file name that is not in the store.\<close>

theorem delete_tries_candidates_in_order_witness:
  "decodeURIComponent ''nope.pdf'' = Inr ''nope.pdf''
   \<and> node_at store0 ''/srv/app/uploads/nope.pdf'' = None
   \<and> delete_api_uploads cfg0 unreachable store0 ''nope.pdf'' =
       (\<lparr>sent = \<lparr>status = 404,
                 body = JObj [(''error'',
                   JStr ''File not found: nope.pdf. Checked paths: /srv/app/uploads/nope.pdf, /srv/app/uploads/nope.pdf, /srv/app/uploads/nope.pdf'')]\<rparr>,
         forwarded = []\<rparr>, store0)"
  using delete_tries_candidates_in_order [where param = "''nope.pdf''" and cfg = cfg0 and up = unreachable and fs = store0,
              OF decode_missing refl refl refl]
  by (simp add: candidates_missing missing_is_absent decode_missing)

text \<open>
  C3 as stated fails when the first candidate that exists cannot be unlinked: the
  file name \<open>../uploads\<close> (sent as \<open>..%2Fuploads\<close>) makes all three candidates the
  upload directory itself, which exists; the reply is a 500 and nothing is deleted.
\<close>

theorem delete_of_a_directory_is_500:
  "decodeURIComponent ''../uploads'' = Inr ''../uploads''
   \<and> possiblePaths cfg0 ''../uploads''
        = [''/srv/app/uploads'', ''/srv/app/uploads'', ''/srv/app/uploads'']
   \<and> fs_access store0 ''/srv/app/uploads'' = Inr ()
   \<and> delete_api_uploads cfg0 answering store0 ''../uploads'' =
       (\<lparr>sent = \<lparr>status = 500,
                 body = JObj [(''error'',
                   JStr (''Failed to delete file: EISDIR: illegal operation on a directory, unlink ''
                         @ [CHR 0x27] @ ''/srv/app/uploads'' @ [CHR 0x27]))]\<rparr>,
         forwarded = []\<rparr>, store0)"
  by code_simp


text \<open>
  C7: when a local file is found and unlinked, the proxy answers 200 with the success
  message and the file name, whatever the upstream does with the delete notification:
  the reply is the same for every upstream, one that fails included.
\<close>

theorem delete_ignores_upstream_failure:
  assumes "decodeURIComponent param = Inr filename"
      and "first_accessible fs (possiblePaths cfg filename) = Some filePath"
      and "fs_unlink fs filePath = Inr fs'"
  shows "delete_api_uploads cfg up fs param =
           (\<lparr>sent = \<lparr>status = 200,
                     body = JObj [(''message'', JStr ''File deleted successfully''),
                                  (''filename'', JStr filename)]\<rparr>,
             forwarded = [\<lparr>req_method = DELETE,
                           req_url = PYTHON_API_URL cfg @ ''/uploads/'' @ encodeURIComponent filename,
                           req_data = NoBody, req_timeout = Some 2000\<rparr>]\<rparr>,
            fs')"
  using assms
  by (simp add: delete_api_uploads_def res_json_def delete_request_def split: sum.split)

lemma decode_sample: "decodeURIComponent ''1-2.pdf'' = Inr ''1-2.pdf''"
  by code_simp

lemma first_accessible_sample:
  "first_accessible store0 (possiblePaths cfg0 ''1-2.pdf'') = Some ''/srv/app/uploads/1-2.pdf''"
  by code_simp

lemma unlink_sample:
  "fs_unlink store0 ''/srv/app/uploads/1-2.pdf'' =
     Inr [(''/srv/app/uploads'', Directory sample_stats),
          (''/srv/app/uploads/notes.txt'', File sample_stats)]"
  by code_simp

lemma encode_sample: "encodeURIComponent ''1-2.pdf'' = ''1-2.pdf''"
  by code_simp

text \<open>The file \<open>1-2.pdf\<close> is deleted while the upstream is unreachable.\<close>

theorem delete_ignores_upstream_failure_witness:
  "decodeURIComponent ''1-2.pdf'' = Inr ''1-2.pdf''
   \<and> unreachable (delete_request cfg0 ''1-2.pdf'')
       = Inl \<lparr>message = ''connect ECONNREFUSED 127.0.0.1:8000'', response = None\<rparr>
   \<and> delete_api_uploads cfg0 unreachable store0 ''1-2.pdf'' =
       (\<lparr>sent = \<lparr>status = 200,
                 body = JObj [(''message'', JStr ''File deleted successfully''),
                              (''filename'', JStr ''1-2.pdf'')]\<rparr>,
         forwarded = [\<lparr>req_method = DELETE, req_url = ''http://localhost:8000/uploads/1-2.pdf'',
                       req_data = NoBody, req_timeout = Some 2000\<rparr>]\<rparr>,
        [(''/srv/app/uploads'', Directory sample_stats),
         (''/srv/app/uploads/notes.txt'', File sample_stats)])"
proof -
  have u: "unreachable (delete_request cfg0 ''1-2.pdf'')
       = Inl \<lparr>message = ''connect ECONNREFUSED 127.0.0.1:8000'', response = None\<rparr>"
    by (simp add: unreachable_def)
  from delete_ignores_upstream_failure
         [where up = unreachable, OF decode_sample first_accessible_sample unlink_sample]
  have "delete_api_uploads cfg0 unreachable store0 ''1-2.pdf'' =
       (\<lparr>sent = \<lparr>status = 200,
                 body = JObj [(''message'', JStr ''File deleted successfully''),
                              (''filename'', JStr ''1-2.pdf'')]\<rparr>,
         forwarded = [\<lparr>req_method = DELETE, req_url = ''http://localhost:8000/uploads/1-2.pdf'',
                       req_data = NoBody, req_timeout = Some 2000\<rparr>]\<rparr>,
        [(''/srv/app/uploads'', Directory sample_stats),
         (''/srv/app/uploads/notes.txt'', File sample_stats)])"
    by (simp add: PYTHON_API_URL_cfg0 encode_sample)
  with decode_sample u show ?thesis by (intro conjI)
qed

subsection \<open>The upload middleware\<close>

lemma map_of_fs_remove: "map_of (fs_remove fs p) q = (if q = p then None else map_of fs q)"
  by (simp add: fs_remove_def map_of_filter_neq)

lemma map_of_fs_write:
  "map_of (fs_write fs p s) q = (if q = p then Some (File s) else map_of fs q)"
  by (simp add: fs_write_def map_of_filter_neq)

lemma map_of_foldl_fs_remove:
  "map_of (foldl fs_remove fs ps) q = (if q \<in> set ps then None else map_of fs q)"
  by (induction ps arbitrary: fs) (auto simp: map_of_fs_remove)

lemma fileFilter_cases:
  "fileFilter file = Inr True \<and> in_mimetype file = ''application/pdf''
   \<or> (\<exists>err. fileFilter file = Inl err) \<and> in_mimetype file \<noteq> ''application/pdf''"
  by (simp add: fileFilter_def)

lemma upload_files_accepted:
  "upload_files cfg src filesLeft uploaded fs files = Accepted r fs' \<Longrightarrow>
   length files \<le> filesLeft
   \<and> (\<forall>f \<in> set files. in_fieldname f = ''files'' \<and> in_mimetype f = ''application/pdf''
                          \<and> in_bytes f \<le> limits_fileSize)
   \<and> (\<exists>new. r = Some (uploaded @ new) \<and> length new = length files
             \<and> map mf_originalname new = map in_originalname files)"
proof (induction files arbitrary: filesLeft uploaded fs)
  case Nil
  then show ?case by simp
next
  case (Cons part rest)
  from Cons.prems have fld: "in_fieldname part = ''files''" and left: "filesLeft \<noteq> 0"
    by (auto simp: abort_upload_def array_fieldname_def split: if_splits)
  from Cons.prems fld left have mt: "in_mimetype part = ''application/pdf''"
    by (auto simp: abort_upload_def array_fieldname_def fileFilter_def split: if_splits)
  then have ff: "fileFilter part = Inr True" by (simp add: fileFilter_def)
  let ?f = "stored_file cfg (src (length uploaded)) part"
  let ?fs = "fs_write fs (mf_path ?f)
               \<lparr>st_size = mf_size ?f, st_mtime_ms = int (fst (src (length uploaded)))\<rparr>"
  from Cons.prems fld left ff have sz: "in_bytes part \<le> limits_fileSize"
    by (auto simp: abort_upload_def array_fieldname_def Let_def split: if_splits)
  with Cons.prems fld left ff
  have rec: "upload_files cfg src (filesLeft - 1) (uploaded @ [?f]) ?fs rest = Accepted r fs'"
    by (simp add: array_fieldname_def Let_def)
  from Cons.IH [OF rec] obtain new where
    ih: "length rest \<le> filesLeft - 1"
        "\<forall>f \<in> set rest. in_fieldname f = ''files'' \<and> in_mimetype f = ''application/pdf''
                          \<and> in_bytes f \<le> limits_fileSize"
        "r = Some ((uploaded @ [?f]) @ new)" "length new = length rest"
        "map mf_originalname new = map in_originalname rest"
    by blast
  have "r = Some (uploaded @ (?f # new)) \<and> length (?f # new) = length (part # rest)
        \<and> map mf_originalname (?f # new) = map in_originalname (part # rest)"
    using ih by (simp add: stored_file_def)
  then have "\<exists>new. r = Some (uploaded @ new) \<and> length new = length (part # rest)
        \<and> map mf_originalname new = map in_originalname (part # rest)"
    by (rule exI [of _ "?f # new"])
  moreover have "length (part # rest) \<le> filesLeft" using ih(1) left by simp
  moreover have "\<forall>f \<in> set (part # rest). in_fieldname f = ''files''
                   \<and> in_mimetype f = ''application/pdf'' \<and> in_bytes f \<le> limits_fileSize"
    using ih(2) fld mt sz by simp
  ultimately show ?case by blast
qed

lemma upload_files_rejected:
  "upload_files cfg src filesLeft uploaded fs files = Rejected err fs' \<Longrightarrow>
   (\<forall>p. p \<notin> set (map mf_path uploaded) \<longrightarrow> map_of fs p = map_of fs0 p) \<Longrightarrow>
   map_of fs' p = Some n \<Longrightarrow> map_of fs0 p = Some n"
proof (induction files arbitrary: filesLeft uploaded fs)
  case Nil
  then show ?case by simp
next
  case (Cons part rest)
  let ?f = "stored_file cfg (src (length uploaded)) part"
  let ?fs = "fs_write fs (mf_path ?f)
               \<lparr>st_size = mf_size ?f, st_mtime_ms = int (fst (src (length uploaded)))\<rparr>"
  have inv: "\<forall>p. p \<notin> set (map mf_path (uploaded @ [?f])) \<longrightarrow> map_of ?fs p = map_of fs0 p"
    using Cons.prems(2) by (simp add: map_of_fs_write)
  have aborted: "map_of fs0 p = Some n"
    if "fs' = foldl fs_remove fs1 (map mf_path ups)"
      and "\<forall>p. p \<notin> set (map mf_path ups) \<longrightarrow> map_of fs1 p = map_of fs0 p"
    for fs1 and ups :: "multer_file list"
    using that Cons.prems(3) by (auto simp: map_of_foldl_fs_remove split: if_splits)
  consider
      (unexpected) "in_fieldname part \<noteq> array_fieldname \<or> filesLeft = 0"
    | (filtered) err' where "\<not> (in_fieldname part \<noteq> array_fieldname \<or> filesLeft = 0)"
        "fileFilter part = Inl err'"
    | (large) "\<not> (in_fieldname part \<noteq> array_fieldname \<or> filesLeft = 0)"
        "fileFilter part = Inr True" "limits_fileSize < in_bytes part"
    | (stored) "\<not> (in_fieldname part \<noteq> array_fieldname \<or> filesLeft = 0)"
        "fileFilter part = Inr True" "\<not> limits_fileSize < in_bytes part"
    using fileFilter_cases [of part] by blast
  then show ?case
  proof cases
    case unexpected
    with Cons.prems(1) have "fs' = foldl fs_remove fs (map mf_path uploaded)"
      by (simp add: abort_upload_def)
    then show ?thesis using Cons.prems(2) by (rule aborted)
  next
    case filtered
    with Cons.prems(1) have "fs' = foldl fs_remove fs (map mf_path uploaded)"
      by (simp add: abort_upload_def)
    then show ?thesis using Cons.prems(2) by (rule aborted)
  next
    case large
    with Cons.prems(1) have "fs' = foldl fs_remove ?fs (map mf_path (uploaded @ [?f]))"
      by (simp add: abort_upload_def Let_def)
    then show ?thesis using inv by (rule aborted)
  next
    case stored
    with Cons.prems(1)
    have "upload_files cfg src (filesLeft - 1) (uploaded @ [?f]) ?fs rest = Rejected err fs'"
      by (simp add: Let_def)
    from Cons.IH [OF this inv Cons.prems(3)] show ?thesis .
  qed
qed

lemma upload_files_accepts:
  "length files \<le> filesLeft \<Longrightarrow>
   \<forall>f \<in> set files. in_fieldname f = ''files'' \<and> in_mimetype f = ''application/pdf''
                      \<and> in_bytes f \<le> limits_fileSize \<Longrightarrow>
   \<exists>r fs'. upload_files cfg src filesLeft uploaded fs files = Accepted r fs'"
proof (induction files arbitrary: filesLeft uploaded fs)
  case Nil
  then show ?case by simp
next
  case (Cons part rest)
  let ?f = "stored_file cfg (src (length uploaded)) part"
  let ?fs = "fs_write fs (mf_path ?f)
               \<lparr>st_size = mf_size ?f, st_mtime_ms = int (fst (src (length uploaded)))\<rparr>"
  from Cons.prems have left: "filesLeft \<noteq> 0" and rest: "length rest \<le> filesLeft - 1"
    by auto
  from Cons.prems have ok: "in_fieldname part = array_fieldname" "fileFilter part = Inr True"
      "\<not> limits_fileSize < in_bytes part"
    by (auto simp: array_fieldname_def fileFilter_def)
  from Cons.prems have "\<forall>f \<in> set rest. in_fieldname f = ''files''
      \<and> in_mimetype f = ''application/pdf'' \<and> in_bytes f \<le> limits_fileSize"
    by simp
  from Cons.IH [OF rest this, of "uploaded @ [?f]" ?fs]
  obtain r fs' where
    "upload_files cfg src (filesLeft - 1) (uploaded @ [?f]) ?fs rest = Accepted r fs'"
    by blast
  with left ok have "upload_files cfg src filesLeft uploaded fs (part # rest) = Accepted r fs'"
    by (simp add: Let_def)
  then show ?case by blast
qed

lemma limits_fileSize_50MiB: "limits_fileSize = 50 * 2 ^ 20"
  by (simp add: limits_fileSize_def)


text \<open>
  C4: the upload of an ingest request is accepted only if it has at most 10 files, each
  of MIME type \<open>application/pdf\<close> and of at most 50 MiB; a request with more files,
  with a file of another type or with a larger file is rejected with an error, and
  the store then holds nothing that it did not hold before the request.
\<close>

theorem upload_accepts_only_small_pdfs:
  "(\<forall>ups fs'. upload_array cfg src fs (Multipart files) = Accepted ups fs' \<longrightarrow>
       length files \<le> 10
       \<and> (\<forall>f \<in> set files. in_mimetype f = ''application/pdf'' \<and> in_bytes f \<le> 50 * 2 ^ 20)
       \<and> (\<exists>stored. ups = Some stored \<and> length stored = length files))
   \<and> (10 < length files
        \<or> (\<exists>f \<in> set files. in_mimetype f \<noteq> ''application/pdf'' \<or> 50 * 2 ^ 20 < in_bytes f)
       \<longrightarrow> (\<exists>err fs'. upload_array cfg src fs (Multipart files) = Rejected err fs'
                     \<and> (\<forall>p n. map_of fs' p = Some n \<longrightarrow> map_of fs p = Some n)))
   \<and> (length files \<le> 10
        \<and> (\<forall>f \<in> set files. in_fieldname f = ''files'' \<and> in_mimetype f = ''application/pdf''
                              \<and> in_bytes f \<le> 50 * 2 ^ 20)
       \<longrightarrow> (\<exists>stored fs'. upload_array cfg src fs (Multipart files) = Accepted (Some stored) fs'
                     \<and> map mf_originalname stored = map in_originalname files))"
proof -
  have acc: "length files \<le> 10
       \<and> (\<forall>f \<in> set files. in_mimetype f = ''application/pdf'' \<and> in_bytes f \<le> 50 * 2 ^ 20)
       \<and> (\<exists>stored. ups = Some stored \<and> length stored = length files
                    \<and> map mf_originalname stored = map in_originalname files)"
    if "upload_array cfg src fs (Multipart files) = Accepted ups fs'" for ups fs'
  proof -
    from that have "upload_files cfg src array_maxCount [] fs files = Accepted ups fs'"
      by (simp add: upload_array_def)
    from upload_files_accepted [OF this] show ?thesis
      by (auto simp: array_maxCount_def limits_fileSize_50MiB)
  qed
  have rej: "\<exists>err fs'. upload_array cfg src fs (Multipart files) = Rejected err fs'
                     \<and> (\<forall>p n. map_of fs' p = Some n \<longrightarrow> map_of fs p = Some n)"
    if v: "10 < length files
        \<or> (\<exists>f \<in> set files. in_mimetype f \<noteq> ''application/pdf'' \<or> 50 * 2 ^ 20 < in_bytes f)"
  proof (cases "upload_array cfg src fs (Multipart files)")
    case (Accepted ups fs')
    from acc [OF this] v show ?thesis by force
  next
    case (Rejected err fs')
    then have r: "upload_files cfg src array_maxCount [] fs files = Rejected err fs'"
      by (simp add: upload_array_def)
    have "\<forall>p n. map_of fs' p = Some n \<longrightarrow> map_of fs p = Some n"
      using upload_files_rejected [OF r, of fs] by simp
    with Rejected show ?thesis by blast
  qed
  have good: "\<exists>stored fs'. upload_array cfg src fs (Multipart files) = Accepted (Some stored) fs'
                     \<and> map mf_originalname stored = map in_originalname files"
    if n: "length files \<le> 10"
      and ok: "\<forall>f \<in> set files. in_fieldname f = ''files'' \<and> in_mimetype f = ''application/pdf''
                              \<and> in_bytes f \<le> 50 * 2 ^ 20"
  proof -
    from n have "length files \<le> array_maxCount" by (simp add: array_maxCount_def)
    moreover from ok have "\<forall>f \<in> set files. in_fieldname f = ''files''
        \<and> in_mimetype f = ''application/pdf'' \<and> in_bytes f \<le> limits_fileSize"
      by (simp add: limits_fileSize_50MiB)
    ultimately obtain r fs' where
      "upload_files cfg src array_maxCount [] fs files = Accepted r fs'"
      using upload_files_accepts by blast
    then have a: "upload_array cfg src fs (Multipart files) = Accepted r fs'"
      by (simp add: upload_array_def)
    from acc [OF a] obtain stored where
      "r = Some stored" "map mf_originalname stored = map in_originalname files"
      by blast
    with a show ?thesis by blast
  qed
  from acc rej good show ?thesis by blast
qed

lemma string_of_nat_samples: "string_of_nat 17 = ''17''" "string_of_nat 40 = ''40''"
  by (simp_all add: string_of_nat.simps digit_char_def)

lemma path_extname_paper: "path_extname ''paper.pdf'' = ''.pdf''"
  by code_simp

lemma stored_path_sample:
  "path_join [storage_destination cfg0, ''17-40.pdf''] = ''/srv/app/uploads/17-40.pdf''"
  by code_simp

lemma stored_file_sample:
  "stored_file cfg0 (clock0 0) pdf_part =
     \<lparr>mf_fieldname = ''files'', mf_originalname = ''paper.pdf'', mf_mimetype = ''application/pdf'',
      mf_destination = storage_destination cfg0, mf_filename = ''17-40.pdf'',
      mf_path = ''/srv/app/uploads/17-40.pdf'', mf_size = 3\<rparr>"
  by (simp add: stored_file_def storage_filename_def clock0_def pdf_part_def
        string_of_nat_samples path_extname_paper stored_path_sample limits_fileSize_def)

lemma text_part_rejected:
  "upload_array cfg0 clock0 store0 (Multipart [pdf_part, text_part]) =
     Rejected (FILTER_ERROR \<lparr>message = ''Only PDF files are allowed'', response = None\<rparr>) store0"
proof -
  have p: "in_fieldname pdf_part = ''files''" "in_mimetype pdf_part = ''application/pdf''"
    "in_bytes pdf_part = 3"
    by (simp_all add: pdf_part_def)
  have t: "in_fieldname text_part = ''files''" "in_mimetype text_part = ''text/plain''"
    by (simp_all add: text_part_def)
  show ?thesis
    by (simp add: upload_array_def array_maxCount_def array_fieldname_def p t
        fileFilter_def Let_def limits_fileSize_def abort_upload_def stored_file_sample fs_write_def
        fs_remove_def store0_def)
qed

text \<open>
  A PDF followed by a text file: the request is rejected, and the PDF written first
  is removed again.
\<close>

lemma pdf_part_accepted:
  "upload_array cfg0 clock0 store0 (Multipart [pdf_part]) =
     Accepted (Some [stored_file cfg0 (clock0 0) pdf_part])
       ((''/srv/app/uploads/17-40.pdf'', File \<lparr>st_size = 3, st_mtime_ms = 17\<rparr>) # store0)"
proof -
  have p: "in_fieldname pdf_part = ''files''" "in_mimetype pdf_part = ''application/pdf''"
    "in_bytes pdf_part = 3"
    by (simp_all add: pdf_part_def)
  have c: "fst (clock0 0) = 17" by (simp add: clock0_def)
  have w: "fs_write store0 ''/srv/app/uploads/17-40.pdf'' \<lparr>st_size = 3, st_mtime_ms = 17\<rparr> =
             (''/srv/app/uploads/17-40.pdf'', File \<lparr>st_size = 3, st_mtime_ms = 17\<rparr>) # store0"
    by (simp add: fs_write_def store0_def)
  have "upload_files cfg0 clock0 array_maxCount [] store0 [pdf_part] =
     Accepted (Some [stored_file cfg0 (clock0 0) pdf_part])
       ((''/srv/app/uploads/17-40.pdf'', File \<lparr>st_size = 3, st_mtime_ms = 17\<rparr>) # store0)"
    unfolding upload_files.simps
    by (simp add: array_maxCount_def array_fieldname_def p c fileFilter_def Let_def
          limits_fileSize_def)
       (simp add: stored_file_sample w)
  then show ?thesis by (simp add: upload_array_def)
qed

theorem upload_accepts_only_small_pdfs_witness:
  "in_mimetype text_part \<noteq> ''application/pdf''
   \<and> upload_array cfg0 clock0 store0 (Multipart [pdf_part, text_part]) =
       Rejected (FILTER_ERROR \<lparr>message = ''Only PDF files are allowed'', response = None\<rparr>) store0
   \<and> upload_array cfg0 clock0 store0 (Multipart [pdf_part]) =
       Accepted (Some [stored_file cfg0 (clock0 0) pdf_part])
         ((''/srv/app/uploads/17-40.pdf'', File \<lparr>st_size = 3, st_mtime_ms = 17\<rparr>) # store0)"
proof -
  have v: "10 < length [pdf_part, text_part]
        \<or> (\<exists>f \<in> set [pdf_part, text_part].
              in_mimetype f \<noteq> ''application/pdf'' \<or> 50 * 2 ^ 20 < in_bytes f)"
    by (simp add: text_part_def)
  from upload_accepts_only_small_pdfs
         [of cfg0 clock0 store0 "[pdf_part, text_part]", THEN conjunct2, THEN conjunct1,
          rule_format, OF v]
  obtain err fs' where
    "upload_array cfg0 clock0 store0 (Multipart [pdf_part, text_part]) = Rejected err fs'"
    by blast
  with text_part_rejected pdf_part_accepted show ?thesis by (simp add: text_part_def)
qed

end
